theory Spec2Isabelle
  imports Complex_Main "HOL-Library.Multiset"
begin

section \<open>Evidence model (parsers/xml\_parser.py, clustering/context\_clusterer.py)\<close>

text \<open>
  The dataclasses of the source, as records. Python floats are idealised as rationals:
  every float the clusterer computes is a quotient of two small integers compared with
  a decimal literal, and the correctly rounded quotient compares with the rounded literal
  as the exact quotient does with the exact literal (up to denominators near \<open>2^53\<close>).
  Strings are lists of characters; a Python \<open>set\<close> of strings is a \<open>string set\<close>
  (always built from a list, hence finite). Equality of records is equality of all
  fields, which is what the dataclass-generated \<open>__eq__\<close> (and so \<open>in\<close>) computes.
\<close>

record LocationContext =
  ctx_text :: string
  nearby_locations :: "string list"
  position_in_doc :: rat

record LocationMention =
  name :: string
  mention_count :: int
  contexts :: "LocationContext list"
  document_id :: string
  all_doc_locations :: "string list"

record ContextCluster =
  cl_contexts :: "LocationContext list"
  cl_nearby_locations :: "string set"
  cl_support :: int
  cl_confidence :: string

record ContextClusterer =
  similarity_threshold :: rat
  min_cluster_size :: int

section \<open>Context clusterer\<close>

text \<open>\<open>_cluster_similarity\<close>: Jaccard similarity of two sets of names.\<close>

definition cluster_similarity :: "string set \<Rightarrow> string set \<Rightarrow> rat" where
  "cluster_similarity set1 set2 =
     (if set1 = {} \<and> set2 = {} then 1
      else if set1 = {} \<or> set2 = {} then 0
      else (let intersection = card (set1 \<inter> set2);
                union = card (set1 \<union> set2)
            in if union > 0 then of_nat intersection / of_nat union else 0))"

text \<open>
  The inner loop of \<open>cluster_contexts\<close> over the clusters built so far. A cluster is
  named by its index in the list (the source holds a reference to the object);
  \<open>best_similarity\<close> starts at 0 and a later cluster replaces the best one only when
  strictly more similar.
\<close>

fun best_cluster_loop ::
  "rat \<Rightarrow> string set \<Rightarrow> ContextCluster list \<Rightarrow> nat \<Rightarrow> rat \<Rightarrow> nat option \<Rightarrow> nat option" where
  "best_cluster_loop th nearby_set [] i best_similarity best_cluster = best_cluster"
| "best_cluster_loop th nearby_set (cluster # rest) i best_similarity best_cluster =
     (let similarity = cluster_similarity nearby_set (cl_nearby_locations cluster)
      in if similarity \<ge> th \<and> similarity > best_similarity
         then best_cluster_loop th nearby_set rest (Suc i) similarity (Some i)
         else best_cluster_loop th nearby_set rest (Suc i) best_similarity best_cluster)"

text \<open>The in-place update of the best cluster, and the cluster created otherwise.\<close>

definition add_to_cluster :: "LocationContext \<Rightarrow> ContextCluster \<Rightarrow> ContextCluster" where
  "add_to_cluster context cluster =
     cluster\<lparr>cl_contexts := cl_contexts cluster @ [context],
             cl_nearby_locations := cl_nearby_locations cluster \<union> set (nearby_locations context),
             cl_support := cl_support cluster + 1\<rparr>"

definition new_cluster :: "LocationContext \<Rightarrow> ContextCluster" where
  "new_cluster context =
     \<lparr>cl_contexts = [context],
      cl_nearby_locations = set (nearby_locations context),
      cl_support = 1,
      cl_confidence = ''low''\<rparr>"

text \<open>The outer loop over \<open>mention.contexts\<close>, threading the list of clusters.\<close>

fun cluster_loop ::
  "rat \<Rightarrow> LocationContext list \<Rightarrow> ContextCluster list \<Rightarrow> ContextCluster list" where
  "cluster_loop th [] clusters = clusters"
| "cluster_loop th (context # rest) clusters =
     (case best_cluster_loop th (set (nearby_locations context)) clusters 0 0 None of
        Some j \<Rightarrow> cluster_loop th rest (clusters[j := add_to_cluster context (clusters ! j)])
      | None \<Rightarrow> cluster_loop th rest (clusters @ [new_cluster context]))"

text \<open>
  \<open>list.sort(key=..., reverse=True)\<close> is stable: elements with equal keys keep their
  order. That is the stable ascending sort on the negated key.
\<close>

definition sort_by_support :: "ContextCluster list \<Rightarrow> ContextCluster list" where
  "sort_by_support clusters = sort_key (\<lambda>c. - cl_support c) clusters"

definition assign_confidence :: "nat \<Rightarrow> ContextCluster \<Rightarrow> ContextCluster" where
  "assign_confidence total_contexts cluster =
     (let proportion = (of_int (cl_support cluster) :: rat) / of_nat total_contexts
      in if proportion \<ge> 6 / 10 then cluster\<lparr>cl_confidence := ''high''\<rparr>
         else if proportion \<ge> 3 / 10 then cluster\<lparr>cl_confidence := ''medium''\<rparr>
         else cluster\<lparr>cl_confidence := ''low''\<rparr>)"

definition cluster_contexts :: "ContextClusterer \<Rightarrow> LocationMention \<Rightarrow> ContextCluster list" where
  "cluster_contexts self mention =
     (if contexts mention = [] then []
      else if length (contexts mention) = 1 then
        [\<lparr>cl_contexts = contexts mention,
          cl_nearby_locations = set (nearby_locations (hd (contexts mention))),
          cl_support = 1,
          cl_confidence = ''high''\<rparr>]
      else map (assign_confidence (length (contexts mention)))
             (sort_by_support (cluster_loop (similarity_threshold self) (contexts mention) [])))"

text \<open>
  \<open>detect_multiple_referents\<close>. The division is by the sum of the supports, which is
  at least 2 whenever it is reached (lemma \<open>sum_support_cluster_contexts\<close> below), so
  no \<open>ZeroDivisionError\<close> branch is needed.
\<close>

definition detect_multiple_referents ::
  "ContextClusterer \<Rightarrow> LocationMention \<Rightarrow> bool \<times> ContextCluster list" where
  "detect_multiple_referents self mention =
     (let clusters = cluster_contexts self mention
      in if length clusters < 2 then (False, clusters)
         else (let total_contexts = sum_list (map cl_support clusters);
                   second_cluster_proportion =
                     (of_int (cl_support (clusters ! 1)) :: rat) / of_int total_contexts;
                   has_multiple = (second_cluster_proportion \<ge> 2 / 10)
               in (has_multiple, clusters)))"

section \<open>Informativeness score (\<open>_context_informativeness_score\<close>)\<close>

text \<open>
  The score calls \<open>re.findall\<close> with the patterns \<open>\b\d{2,4}\b\<close> and
  \<open>\b[A-Z][a-z]+\b\<close>. The model is a backtracking matcher for the fragment of regular
  expressions these patterns use: a word boundary, and a greedy bounded repetition of a
  character class. A character is a code point below 256; \<open>\d\<close> and \<open>\w\<close> are Python's
  Unicode classes restricted to that range.
\<close>

definition is_digit :: "char \<Rightarrow> bool" where
  "is_digit c = (let n = (of_char c :: nat) in 48 \<le> n \<and> n \<le> 57)"

definition is_upper_az :: "char \<Rightarrow> bool" where
  "is_upper_az c = (let n = (of_char c :: nat) in 65 \<le> n \<and> n \<le> 90)"

definition is_lower_az :: "char \<Rightarrow> bool" where
  "is_lower_az c = (let n = (of_char c :: nat) in 97 \<le> n \<and> n \<le> 122)"

definition is_word_char :: "char \<Rightarrow> bool" where
  "is_word_char c =
     (let n = (of_char c :: nat)
      in (48 \<le> n \<and> n \<le> 57) \<or> (65 \<le> n \<and> n \<le> 90) \<or> n = 95 \<or> (97 \<le> n \<and> n \<le> 122)
         \<or> n = 170 \<or> n = 178 \<or> n = 179 \<or> n = 181 \<or> n = 185 \<or> n = 186
         \<or> (188 \<le> n \<and> n \<le> 190) \<or> (192 \<le> n \<and> n \<le> 214)
         \<or> (216 \<le> n \<and> n \<le> 246) \<or> 248 \<le> n)"

datatype char_class = Digit | UpperAZ | LowerAZ

fun in_class :: "char_class \<Rightarrow> char \<Rightarrow> bool" where
  "in_class Digit c = is_digit c"
| "in_class UpperAZ c = is_upper_az c"
| "in_class LowerAZ c = is_lower_az c"

datatype regex_item = WordBoundary | Repeat char_class nat "nat option"

text \<open>
  \<open>\b\<close> holds between a word character and a non-word character, the two ends of
  the text counting as non-word. \<open>prev\<close> is the character before the current position.
\<close>

definition at_boundary :: "char option \<Rightarrow> string \<Rightarrow> bool" where
  "at_boundary prev s =
     ((case prev of None \<Rightarrow> False | Some c \<Rightarrow> is_word_char c)
      \<noteq> (case s of [] \<Rightarrow> False | c # _ \<Rightarrow> is_word_char c))"

definition prev_after :: "char option \<Rightarrow> string \<Rightarrow> nat \<Rightarrow> char option" where
  "prev_after prev s k = (if k = 0 then prev else Some (s ! (k - 1)))"

fun first_match :: "nat option list \<Rightarrow> nat option" where
  "first_match [] = None"
| "first_match (None # rest) = first_match rest"
| "first_match (Some e # rest) = Some e"

text \<open>
  \<open>match_here p prev s\<close>: the length of the match of pattern \<open>p\<close> at the start of
  \<open>s\<close>, if there is one. A repetition is greedy: the longest run allowed is tried first
  and shortened one character at a time until the rest of the pattern matches.
\<close>

fun match_here :: "regex_item list \<Rightarrow> char option \<Rightarrow> string \<Rightarrow> nat option" where
  "match_here [] prev s = Some 0"
| "match_here (WordBoundary # ps) prev s =
     (if at_boundary prev s then match_here ps prev s else None)"
| "match_here (Repeat cls lo hi # ps) prev s =
     (let run = length (takeWhile (in_class cls) s);
          most = (case hi of None \<Rightarrow> run | Some h \<Rightarrow> min h run)
      in first_match
           (map (\<lambda>k. map_option (\<lambda>e. k + e) (match_here ps (prev_after prev s k) (drop k s)))
                (rev [lo ..< Suc most])))"

text \<open>
  \<open>len(re.findall(p, s))\<close>: matches are searched from left to right and do not
  overlap; after a match the search resumes at its end. (Both patterns of the source
  need at least two characters, so the treatment of empty matches, which here advance
  by one character, is never exercised.)
\<close>

fun findall_count :: "regex_item list \<Rightarrow> char option \<Rightarrow> string \<Rightarrow> nat" where
  "findall_count p prev [] = (case match_here p prev [] of None \<Rightarrow> 0 | Some k \<Rightarrow> 1)"
| "findall_count p prev (c # cs) =
     (case match_here p prev (c # cs) of
        None \<Rightarrow> findall_count p (Some c) cs
      | Some k \<Rightarrow> Suc (findall_count p (prev_after (Some c) cs (k - 1)) (drop (k - 1) cs)))"

definition numbers_pattern :: "regex_item list" where
  "numbers_pattern = [WordBoundary, Repeat Digit 2 (Some 4), WordBoundary]"

definition cap_words_pattern :: "regex_item list" where
  "cap_words_pattern = [WordBoundary, Repeat UpperAZ 1 (Some 1), Repeat LowerAZ 1 None, WordBoundary]"

definition context_informativeness_score :: "LocationContext \<Rightarrow> rat" where
  "context_informativeness_score context =
     (let score = 0;
          score = score + of_nat (length (nearby_locations context)) * 2;
          score = score + min (of_nat (length (ctx_text context)) / 500) 1;
          numbers = findall_count numbers_pattern None (ctx_text context);
          score = score + of_nat numbers * (1 / 2);
          cap_words = findall_count cap_words_pattern None (ctx_text context);
          score = score + min (of_nat cap_words / 10) 1
      in score)"

section \<open>Representative context selector\<close>

text \<open>Python's \<open>round\<close> on a float: to the nearest integer, a tie going to the even one.\<close>

definition py_round :: "rat \<Rightarrow> int" where
  "py_round q =
     (let f = \<lfloor>q\<rfloor>; d = q - of_int f
      in if d < 1 / 2 then f else if d > 1 / 2 then f + 1 else if even f then f else f + 1)"

text \<open>\<open>xs[:k]\<close>, where a negative \<open>k\<close> counts from the end.\<close>

definition py_slice_to :: "int \<Rightarrow> 'a list \<Rightarrow> 'a list" where
  "py_slice_to k xs = (if k \<ge> 0 then take (nat k) xs else take (nat (int (length xs) + k)) xs)"

text \<open>The first loop: best scores first, one per position bucket once half the slots are filled.\<close>

fun diversity_loop ::
  "int \<Rightarrow> (rat \<times> LocationContext) list \<Rightarrow> LocationContext list \<Rightarrow> int set \<Rightarrow> LocationContext list" where
  "diversity_loop max_contexts [] selected used_positions = selected"
| "diversity_loop max_contexts ((score, ctx) # rest) selected used_positions =
     (if int (length selected) \<ge> max_contexts then selected
      else (let position_bucket = py_round (position_in_doc ctx * 10)
            in if position_bucket \<notin> used_positions \<or> int (length selected) < max_contexts div 2
               then diversity_loop max_contexts rest (selected @ [ctx])
                      (insert position_bucket used_positions)
               else diversity_loop max_contexts rest selected used_positions))"

text \<open>The second loop: fill up with the best contexts not yet selected (\<open>ctx not in selected\<close>).\<close>

fun fill_loop ::
  "int \<Rightarrow> (rat \<times> LocationContext) list \<Rightarrow> LocationContext list \<Rightarrow> LocationContext list" where
  "fill_loop max_contexts [] selected = selected"
| "fill_loop max_contexts ((score, ctx) # rest) selected =
     (if int (length selected) \<ge> max_contexts then selected
      else if ctx \<notin> set selected then fill_loop max_contexts rest (selected @ [ctx])
      else fill_loop max_contexts rest selected)"

definition select_representative_contexts :: "ContextCluster \<Rightarrow> int \<Rightarrow> LocationContext list" where
  "select_representative_contexts cluster max_contexts =
     (if int (length (cl_contexts cluster)) \<le> max_contexts then cl_contexts cluster
      else (let scored_contexts =
                  map (\<lambda>ctx. (context_informativeness_score ctx, ctx)) (cl_contexts cluster);
                scored_contexts = sort_key (\<lambda>x. - fst x) scored_contexts;
                selected = diversity_loop max_contexts scored_contexts [] {};
                selected = fill_loop max_contexts scored_contexts selected
            in py_slice_to max_contexts selected))"

section \<open>Disambiguation orchestrator (disambiguation/multi\_context\_rag.py)\<close>

text \<open>
  Python values as they come out of \<open>json.loads\<close> and as the retriever's candidate
  dictionaries hold them. A dictionary is an association list read with \<open>map_of\<close>.
\<close>

datatype jval =
    JNull
  | JBool bool
  | JInt int
  | JFloat rat
  | JStr string
  | JArr "jval list"
  | JObj "(string \<times> jval) list"

type_synonym candidate = "(string \<times> jval) list"

text \<open>
  Exceptions are values. \<open>JSONDecodeError\<close> is the one class the retry loop singles
  out; \<open>ServiceError\<close> stands for any other exception an external collaborator raises.
\<close>

datatype py_exception =
    JSONDecodeError string
  | IndexError
  | AttributeError string
  | ServiceError string

fun exn_str :: "py_exception \<Rightarrow> string" where
  "exn_str (JSONDecodeError m) = m"
| "exn_str IndexError = ''list index out of range''"
| "exn_str (AttributeError m) = m"
| "exn_str (ServiceError m) = m"

text \<open>
  One call of \<open>llm_client.chat.completions.create\<close> followed by
  \<open>response.choices[0].message.content\<close>: either an exception or the content text.
\<close>

datatype llm_reply = Raises py_exception | Content string

fun type_name :: "jval \<Rightarrow> string" where
  "type_name JNull = ''NoneType''"
| "type_name (JBool b) = ''bool''"
| "type_name (JInt i) = ''int''"
| "type_name (JFloat r) = ''float''"
| "type_name (JStr s) = ''str''"
| "type_name (JArr xs) = ''list''"
| "type_name (JObj kvs) = ''dict''"

definition no_attribute :: "jval \<Rightarrow> string \<Rightarrow> py_exception" where
  "no_attribute v attr =
     AttributeError ([CHR 0x27] @ type_name v @ [CHR 0x27] @ '' object has no attribute ''
                     @ [CHR 0x27] @ attr @ [CHR 0x27])"

text \<open>
  \<open>==\<close> on Python values: \<open>bool\<close>, \<open>int\<close> and \<open>float\<close> compare by numeric value, and a
  number never equals a non-number. (Inside lists and dictionaries the comparison is
  structural here; the retriever's identifiers are integers.)
\<close>

fun num_of :: "jval \<Rightarrow> rat option" where
  "num_of (JBool b) = Some (if b then 1 else 0)"
| "num_of (JInt i) = Some (of_int i)"
| "num_of (JFloat r) = Some r"
| "num_of v = None"

definition py_eq :: "jval \<Rightarrow> jval \<Rightarrow> bool" where
  "py_eq a b =
     (case (num_of a, num_of b) of
        (Some x, Some y) \<Rightarrow> x = y
      | (None, None) \<Rightarrow> a = b
      | _ \<Rightarrow> False)"

text \<open>\<open>d.get(key)\<close> and \<open>d.get(key, default)\<close> on a dictionary.\<close>

definition dict_get :: "(string \<times> jval) list \<Rightarrow> string \<Rightarrow> jval" where
  "dict_get d key = (case map_of d key of None \<Rightarrow> JNull | Some v \<Rightarrow> v)"

definition dict_get_default :: "(string \<times> jval) list \<Rightarrow> string \<Rightarrow> jval \<Rightarrow> jval" where
  "dict_get_default d key dflt = (case map_of d key of None \<Rightarrow> dflt | Some v \<Rightarrow> v)"

subsection \<open>String helpers\<close>

definition is_space :: "char \<Rightarrow> bool" where
  "is_space c =
     (let n = (of_char c :: nat)
      in (9 \<le> n \<and> n \<le> 13) \<or> (28 \<le> n \<and> n \<le> 32) \<or> n = 133 \<or> n = 160)"

definition py_strip :: "string \<Rightarrow> string" where
  "py_strip s = rev (dropWhile is_space (rev (dropWhile is_space s)))"

definition lower_char :: "char \<Rightarrow> char" where
  "lower_char c =
     (let n = (of_char c :: nat)
      in if (65 \<le> n \<and> n \<le> 90) \<or> (192 \<le> n \<and> n \<le> 214) \<or> (216 \<le> n \<and> n \<le> 222)
         then char_of (n + 32) else c)"

definition py_lower :: "string \<Rightarrow> string" where
  "py_lower s = map lower_char s"

fun contains :: "string \<Rightarrow> string \<Rightarrow> bool" where
  "contains sub [] = (sub = [])"
| "contains sub (c # cs) = (take (length sub) (c # cs) = sub \<or> contains sub cs)"

text \<open>\<open>s.split(sep)\<close> for a non-empty separator: cut at each occurrence, left to right.\<close>

fun split_loop :: "string \<Rightarrow> string \<Rightarrow> string \<Rightarrow> string list" where
  "split_loop sep cur [] = [cur]"
| "split_loop sep cur (c # cs) =
     (if sep \<noteq> [] \<and> take (length sep) (c # cs) = sep
      then cur # split_loop sep [] (drop (length sep - 1) cs)
      else split_loop sep (cur @ [c]) cs)"

definition py_split :: "string \<Rightarrow> string \<Rightarrow> string list" where
  "py_split sep s = split_loop sep [] s"

text \<open>\<open>xs[i]\<close>: a negative index counts from the end, an index out of range raises.\<close>

definition py_index :: "'a list \<Rightarrow> int \<Rightarrow> py_exception + 'a" where
  "py_index xs i =
     (if 0 \<le> i \<and> i < int (length xs) then Inr (xs ! nat i)
      else if i < 0 \<and> - int (length xs) \<le> i then Inr (xs ! nat (int (length xs) + i))
      else Inl IndexError)"

definition fence_json :: string where
  "fence_json = replicate 3 (CHR 0x60) @ ''json''"

definition fence :: string where
  "fence = replicate 3 (CHR 0x60)"

text \<open>Lines 242-245: the text between the code-fence markers, if there are any.\<close>

definition extract_json :: "string \<Rightarrow> py_exception + string" where
  "extract_json response_text =
     (if contains fence_json response_text then
        (case py_index (py_split fence_json response_text) 1 of
           Inl e \<Rightarrow> Inl e
         | Inr a \<Rightarrow> (case py_index (py_split fence a) 0 of
                      Inl e \<Rightarrow> Inl e
                    | Inr b \<Rightarrow> Inr (py_strip b)))
      else if contains fence response_text then
        (case py_index (py_split fence response_text) 1 of
           Inl e \<Rightarrow> Inl e
         | Inr a \<Rightarrow> (case py_index (py_split fence a) 0 of
                      Inl e \<Rightarrow> Inl e
                    | Inr b \<Rightarrow> Inr (py_strip b)))
      else Inr response_text)"

subsection \<open>\<open>_disambiguate_with_llm\<close>\<close>

text \<open>
  The prompt (\<open>_build_multi_context_prompt\<close>, and its rewording before the retry) is
  text sent to the reasoning service and nothing else; it is not modelled. The service is
  the sequence of its replies, \<open>llm n\<close> being the reply to call number \<open>n\<close>: whatever
  the prompts are, the replies are some such sequence. \<open>json.loads\<close> and \<open>str\<close> (used
  by the f-string on the reasoning value) are parameters.
\<close>

definition find_candidate :: "candidate list \<Rightarrow> jval \<Rightarrow> candidate option" where
  "find_candidate candidates selected_id =
     List.find (\<lambda>c. py_eq (dict_get c ''id'') selected_id) candidates"

text \<open>Lines 250-270: from the parsed decision to the pair returned.\<close>

definition decide ::
  "(jval \<Rightarrow> string) \<Rightarrow> candidate list \<Rightarrow> jval \<Rightarrow> py_exception + (candidate option \<times> jval)" where
  "decide py_str candidates llm_decision =
     (case llm_decision of
        JObj d \<Rightarrow>
          (let selected_id = dict_get d ''selected_id'';
               reasoning = dict_get_default d ''reasoning'' (JStr ''No reasoning provided'')
           in case dict_get_default d ''confidence'' (JStr ''medium'') of
                JStr conf \<Rightarrow>
                  (let llm_confidence = py_lower conf
                   in if selected_id = JNull then Inr (None, reasoning)
                      else if llm_confidence = ''low''
                      then Inr (None, JStr (''Low confidence: '' @ py_str reasoning))
                      else Inr (find_candidate candidates selected_id, reasoning))
              | v \<Rightarrow> Inl (no_attribute v ''lower''))
      | v \<Rightarrow> Inl (no_attribute v ''get''))"

text \<open>
  The body of the \<open>try\<close> block, for one reply of the service: lines 220-247 obtain
  the parsed decision (\<open>parse_reply\<close>), lines 250-270 act on it (\<open>decide\<close>).
\<close>

definition parse_reply :: "(string \<Rightarrow> py_exception + jval) \<Rightarrow> llm_reply \<Rightarrow> py_exception + jval" where
  "parse_reply json_loads reply =
     (case reply of
        Raises e \<Rightarrow> Inl e
      | Content content \<Rightarrow>
          (case extract_json (py_strip content) of
             Inl e \<Rightarrow> Inl e
           | Inr response_text \<Rightarrow> json_loads response_text))"

definition attempt_once ::
  "(string \<Rightarrow> py_exception + jval) \<Rightarrow> (jval \<Rightarrow> string) \<Rightarrow> candidate list \<Rightarrow> llm_reply
   \<Rightarrow> py_exception + (candidate option \<times> jval)" where
  "attempt_once json_loads py_str candidates reply =
     (case parse_reply json_loads reply of
        Inl e \<Rightarrow> Inl e
      | Inr llm_decision \<Rightarrow> decide py_str candidates llm_decision)"

text \<open>
  \<open>for attempt in range(max_retries)\<close> with its two \<open>except\<close> clauses. Each attempt
  makes one call, so the second component returned, the number of attempts begun, is
  the number of calls the service received.
\<close>

function llm_retry_loop ::
  "(string \<Rightarrow> py_exception + jval) \<Rightarrow> (jval \<Rightarrow> string) \<Rightarrow> (nat \<Rightarrow> llm_reply) \<Rightarrow> candidate list
   \<Rightarrow> nat \<Rightarrow> nat \<Rightarrow> (candidate option \<times> jval) \<times> nat" where
  "llm_retry_loop json_loads py_str llm candidates max_retries attempt =
     (if attempt < max_retries then
        (case attempt_once json_loads py_str candidates (llm attempt) of
           Inr r \<Rightarrow> (r, Suc attempt)
         | Inl (JSONDecodeError m) \<Rightarrow>
             (if attempt < max_retries - 1
              then llm_retry_loop json_loads py_str llm candidates max_retries (Suc attempt)
              else ((None, JStr (''LLM response parsing failed: '' @ m)), Suc attempt))
         | Inl e \<Rightarrow> ((None, JStr (''LLM error: '' @ exn_str e)), Suc attempt))
      else ((None, JStr ''Failed to get valid LLM response''), attempt))"
  by pat_completeness auto
termination
  by (relation "measure (\<lambda>(json_loads, py_str, llm, candidates, max_retries, attempt).
                           max_retries - attempt)") auto

definition disambiguate_with_llm ::
  "(string \<Rightarrow> py_exception + jval) \<Rightarrow> (jval \<Rightarrow> string) \<Rightarrow> (nat \<Rightarrow> llm_reply) \<Rightarrow> candidate list
   \<Rightarrow> (candidate option \<times> jval) \<times> nat" where
  "disambiguate_with_llm json_loads py_str llm candidates =
     (let max_retries = 2 in llm_retry_loop json_loads py_str llm candidates max_retries 0)"

subsection \<open>\<open>_calculate_confidence\<close> and \<open>disambiguate\<close>\<close>

definition calculate_confidence :: "string \<Rightarrow> int \<Rightarrow> int \<Rightarrow> bool \<Rightarrow> string" where
  "calculate_confidence cluster_confidence num_candidates num_contexts has_multiple =
     (if cluster_confidence = ''high'' \<and> \<not> has_multiple \<and> num_candidates \<le> 5 then ''high''
      else if cluster_confidence = ''low'' \<or> has_multiple \<or> num_candidates > 20 then ''low''
      else ''medium'')"

record DisambiguationResult =
  toponym :: string
  selected_candidate :: "candidate option"
  confidence :: string
  reasoning :: jval
  clusters_detected :: nat
  has_multiple_referents :: bool
  all_candidates :: "candidate list"
  contexts_used :: "string list"
  res_nearby_locations :: "string set"
  source_location :: "candidate option"

text \<open>
  The disambiguator object: its two external collaborators and its settings. The
  retriever either raises or returns a list of candidates.
\<close>

record MultiContextDisambiguator =
  neo4j_get_candidates :: "string \<Rightarrow> int \<Rightarrow> py_exception + candidate list"
  llm_client :: "nat \<Rightarrow> llm_reply"
  clusterer :: ContextClusterer
  max_contexts_per_cluster :: int
  max_candidates :: int

text \<open>Lines 107-111: which cluster is disambiguated.\<close>

definition select_target ::
  "ContextCluster list \<Rightarrow> int option \<Rightarrow> py_exception + ContextCluster option" where
  "select_target clusters cluster_id =
     (case cluster_id of
        Some i \<Rightarrow>
          (if i < int (length clusters)
           then (case py_index clusters i of Inl e \<Rightarrow> Inl e | Inr c \<Rightarrow> Inr (Some c))
           else Inr (if clusters \<noteq> [] then Some (clusters ! 0) else None))
      | None \<Rightarrow> Inr (if clusters \<noteq> [] then Some (clusters ! 0) else None))"

text \<open>
  \<open>disambiguate\<close>. An exception that the source does not catch is the result \<open>Inl\<close>.
  The result comes with the number of calls the reasoning service received. The
  \<open>nearby_locations\<close> of the result is \<open>list(set)\<close>, whose order Python leaves open:
  it is kept as the set. The optional zero-match tracker only records the toponym and
  is left out; so is logging.
\<close>

definition disambiguate ::
  "(string \<Rightarrow> py_exception + jval) \<Rightarrow> (jval \<Rightarrow> string) \<Rightarrow> MultiContextDisambiguator
   \<Rightarrow> LocationMention \<Rightarrow> candidate option \<Rightarrow> int option
   \<Rightarrow> py_exception + (DisambiguationResult \<times> nat)" where
  "disambiguate json_loads py_str self mention source_loc cluster_id =
     (let clusters = cluster_contexts (clusterer self) mention;
          has_multiple = fst (detect_multiple_referents (clusterer self) mention)
      in case select_target clusters cluster_id of
           Inl e \<Rightarrow> Inl e
         | Inr None \<Rightarrow>
             Inr (\<lparr>toponym = name mention, selected_candidate = None, confidence = ''low'',
                   reasoning = JStr ''No valid contexts found'', clusters_detected = 0,
                   has_multiple_referents = False, all_candidates = [], contexts_used = [],
                   res_nearby_locations = {}, source_location = None\<rparr>, 0)
         | Inr (Some target_cluster) \<Rightarrow>
             (let representative_contexts =
                    select_representative_contexts target_cluster (max_contexts_per_cluster self)
              in case neo4j_get_candidates self (name mention) (max_candidates self) of
                   Inl e \<Rightarrow> Inl e
                 | Inr candidates \<Rightarrow>
                     if candidates = [] then
                       Inr (\<lparr>toponym = name mention, selected_candidate = None,
                             confidence = ''low'',
                             reasoning = JStr ''No candidates found in knowledge graph'',
                             clusters_detected = length clusters,
                             has_multiple_referents = has_multiple, all_candidates = [],
                             contexts_used = map ctx_text representative_contexts,
                             res_nearby_locations = cl_nearby_locations target_cluster,
                             source_location = None\<rparr>, 0)
                     else
                       (let (answer, calls) =
                              disambiguate_with_llm json_loads py_str (llm_client self) candidates;
                            conf = calculate_confidence (cl_confidence target_cluster)
                                     (int (length candidates))
                                     (int (length representative_contexts)) has_multiple
                        in Inr (\<lparr>toponym = name mention, selected_candidate = fst answer,
                                  confidence = conf, reasoning = snd answer,
                                  clusters_detected = length clusters,
                                  has_multiple_referents = has_multiple,
                                  all_candidates = candidates,
                                  contexts_used = map ctx_text representative_contexts,
                                  res_nearby_locations = cl_nearby_locations target_cluster,
                                  source_location = source_loc\<rparr>, calls))))"

section \<open>Scenarios of the specification\<close>

text \<open>
  Scenario A: a mention of ``London'' with five occurrences, one of them near England and
  Thames, the four others near Ontario and Canada, in any order and with any texts and
  positions.
\<close>

definition scenario_A :: "LocationMention \<Rightarrow> bool" where
  "scenario_A mention =
     (name mention = ''London'' \<and> length (contexts mention) = 5 \<and>
      (\<exists>i<5. set (nearby_locations (contexts mention ! i)) = {''England'', ''Thames''} \<and>
         (\<forall>j<5. j \<noteq> i \<longrightarrow>
            set (nearby_locations (contexts mention ! j)) = {''Ontario'', ''Canada''})))"

text \<open>Concrete inputs used to exercise the theorems.\<close>

definition default_clusterer :: ContextClusterer where
  "default_clusterer = \<lparr>similarity_threshold = 3 / 10, min_cluster_size = 1\<rparr>"

definition ontario_context :: "string \<Rightarrow> rat \<Rightarrow> LocationContext" where
  "ontario_context t p =
     \<lparr>ctx_text = t, nearby_locations = [''Ontario'', ''Canada''], position_in_doc = p\<rparr>"

definition england_context :: "string \<Rightarrow> rat \<Rightarrow> LocationContext" where
  "england_context t p =
     \<lparr>ctx_text = t, nearby_locations = [''England'', ''Thames''], position_in_doc = p\<rparr>"

definition london_mention :: LocationMention where
  "london_mention =
     \<lparr>name = ''London'', mention_count = 5,
      contexts = [ontario_context ''a'' 0, ontario_context ''b'' (1 / 4),
                  england_context ''c'' (1 / 2), ontario_context ''d'' (3 / 4),
                  ontario_context ''e'' 1],
      document_id = ''P000045'', all_doc_locations = [''London'', ''Ontario'']\<rparr>"

definition regina_mention :: LocationMention where
  "regina_mention =
     \<lparr>name = ''Regina'', mention_count = 1,
      contexts = [\<lparr>ctx_text = ''Arrived at Regina in 1885'', nearby_locations = [''Assiniboia''],
                   position_in_doc = 1 / 2\<rparr>],
      document_id = ''P000045'', all_doc_locations = [''Regina'', ''Assiniboia'']\<rparr>"

text \<open>
  A retriever result as \<open>Neo4jKnowledgeGraph.get_candidates\<close> builds it (identifiers are
  the positions 0, 1, ...), replies of the reasoning service, and stand-ins for the two
  library functions: \<open>sample_loads\<close> agrees with \<open>json.loads\<close> on the reply texts used
  here, \<open>sample_str\<close> with \<open>str\<close> on strings.
\<close>

definition london_candidates :: "candidate list" where
  "london_candidates =
     [[(''id'', JInt 0), (''title'', JStr ''London''), (''country'', JStr ''CA'')],
      [(''id'', JInt 1), (''title'', JStr ''London''), (''country'', JStr ''GB'')]]"


definition quoted :: "string \<Rightarrow> string" where
  "quoted s = CHR 0x22 # s @ [CHR 0x22]"

definition reply_text :: "string \<Rightarrow> string \<Rightarrow> string \<Rightarrow> string" where
  "reply_text sid conf why =
     ''{'' @ quoted ''selected_id'' @ '': '' @ sid @ '', '' @ quoted ''confidence'' @ '': ''
     @ quoted conf @ '', '' @ quoted ''reasoning'' @ '': '' @ quoted why @ ''}''"

definition reply_json :: "jval \<Rightarrow> string \<Rightarrow> string \<Rightarrow> jval" where
  "reply_json sid conf why =
     JObj [(''selected_id'', sid), (''confidence'', JStr conf), (''reasoning'', JStr why)]"

definition sample_loads :: "string \<Rightarrow> py_exception + jval" where
  "sample_loads t =
     (if t = reply_text ''1'' ''low'' ''plausible but uncertain''
      then Inr (reply_json (JInt 1) ''low'' ''plausible but uncertain'')
      else if t = reply_text ''1'' ''high'' ''Thames is in England''
      then Inr (reply_json (JInt 1) ''high'' ''Thames is in England'')
      else if t = reply_text ''7'' ''high'' ''Thames is in England''
      then Inr (reply_json (JInt 7) ''high'' ''Thames is in England'')
      else Inl (JSONDecodeError ''Expecting value: line 1 column 1 (char 0)''))"

definition sample_str :: "jval \<Rightarrow> string" where
  "sample_str v = (case v of JStr s \<Rightarrow> s | _ \<Rightarrow> ''None'')"

definition sample_disambiguator ::
  "(string \<Rightarrow> int \<Rightarrow> py_exception + candidate list) \<Rightarrow> (nat \<Rightarrow> llm_reply)
   \<Rightarrow> MultiContextDisambiguator" where
  "sample_disambiguator retriever llm =
     \<lparr>neo4j_get_candidates = retriever, llm_client = llm, clusterer = default_clusterer,
      max_contexts_per_cluster = 3, max_candidates = 10\<rparr>"

text \<open>Three behaviours of the reasoning service, the same on every call.\<close>

definition low_confidence_service :: "nat \<Rightarrow> llm_reply" where
  "low_confidence_service n = Content (reply_text ''1'' ''low'' ''plausible but uncertain'')"

definition unmatched_id_service :: "nat \<Rightarrow> llm_reply" where
  "unmatched_id_service n = Content (reply_text ''7'' ''high'' ''Thames is in England'')"

definition matched_id_service :: "nat \<Rightarrow> llm_reply" where
  "matched_id_service n = Content (reply_text ''1'' ''high'' ''Thames is in England'')"



definition london_retriever :: "string \<Rightarrow> int \<Rightarrow> py_exception + candidate list" where
  "london_retriever nm limit = Inr london_candidates"



section \<open>The score in the words of the specification\<close>











text \<open>A cluster of four occurrences in one paragraph: same text, nearby names and position.\<close>

definition same_paragraph_cluster :: ContextCluster where
  "same_paragraph_cluster =
     \<lparr>cl_contexts = replicate 4 (ontario_context ''London and again London, London, London.'' (1 / 2)),
      cl_nearby_locations = {''Ontario'', ''Canada''}, cl_support = 4, cl_confidence = ''high''\<rparr>"




section \<open>Properties of the context clusterer\<close>

lemma best_cluster_loop_bound:
  "best_cluster_loop th s cs i bs bc = Some j \<Longrightarrow> bc = Some j \<or> (i \<le> j \<and> j < i + length cs)"
proof (induction cs arbitrary: i bs bc)
  case Nil
  then show ?case by simp
next
  case (Cons c cs)
  show ?case
  proof (cases "cluster_similarity s (cl_nearby_locations c) \<ge> th \<and> cluster_similarity s (cl_nearby_locations c) > bs")
    case True
    with Cons.prems have "best_cluster_loop th s cs (Suc i) (cluster_similarity s (cl_nearby_locations c)) (Some i) = Some j"
      by simp
    from Cons.IH[OF this] show ?thesis by auto
  next
    case False
    with Cons.prems have "best_cluster_loop th s cs (Suc i) bs bc = Some j"
      by auto
    from Cons.IH[OF this] show ?thesis by auto
  qed
qed

lemma best_cluster_loop_in_range:
  "best_cluster_loop th s cs 0 bs None = Some j \<Longrightarrow> j < length cs"
  using best_cluster_loop_bound[of th s cs 0 bs None j] by auto

lemma mset_contexts_update:
  assumes "j < length cs"
  shows "mset (concat (map cl_contexts (cs[j := add_to_cluster x (cs ! j)])))
         = mset (concat (map cl_contexts cs)) + {#x#}"
proof -
  have split: "cs = take j cs @ (cs ! j) # drop (Suc j) cs"
    using assms by (simp add: id_take_nth_drop)
  have upd: "cs[j := add_to_cluster x (cs ! j)] = take j cs @ add_to_cluster x (cs ! j) # drop (Suc j) cs"
    using assms by (simp add: upd_conv_take_nth_drop)
  have "mset (concat (map cl_contexts (take j cs @ add_to_cluster x (cs ! j) # drop (Suc j) cs)))
        = mset (concat (map cl_contexts (take j cs @ (cs ! j) # drop (Suc j) cs))) + {#x#}"
    by (simp add: add_to_cluster_def)
  with split upd show ?thesis by metis
qed

lemma cluster_loop_mset:
  "mset (concat (map cl_contexts (cluster_loop th xs cs)))
   = mset (concat (map cl_contexts cs)) + mset xs"
proof (induction xs arbitrary: cs)
  case Nil
  show ?case by simp
next
  case (Cons x xs)
  show ?case
  proof (cases "best_cluster_loop th (set (nearby_locations x)) cs 0 0 None")
    case None
    then show ?thesis by (simp add: Cons.IH new_cluster_def)
  next
    case (Some j)
    then have "j < length cs" by (rule best_cluster_loop_in_range)
    with Some show ?thesis by (simp add: Cons.IH mset_contexts_update)
  qed
qed

lemma cl_contexts_assign_confidence [simp]:
  "cl_contexts (assign_confidence n c) = cl_contexts c"
  by (simp add: assign_confidence_def Let_def)

lemma cl_support_assign_confidence [simp]:
  "cl_support (assign_confidence n c) = cl_support c"
  by (simp add: assign_confidence_def Let_def)

lemma mset_concat_map_sort_key:
  "mset (concat (map f (sort_key k xs))) = mset (concat (map f xs))"
proof -
  have "mset (concat (map f ys)) = (\<Sum>y\<in>#mset ys. mset (f y))" for ys
    by (induction ys) simp_all
  then show ?thesis by simp
qed

lemma cluster_contexts_mset:
  "mset (concat (map cl_contexts (cluster_contexts self mention))) = mset (contexts mention)"
proof (cases "contexts mention = [] \<or> length (contexts mention) = 1")
  case True
  then show ?thesis by (auto simp: cluster_contexts_def)
next
  case False
  have "map cl_contexts (map (assign_confidence n) cs) = map cl_contexts cs" for n cs
    by simp
  with False show ?thesis
    by (simp add: cluster_contexts_def sort_by_support_def mset_concat_map_sort_key cluster_loop_mset comp_def)
qed

lemma cluster_loop_support:
  "\<forall>c\<in>set cs. cl_support c = int (length (cl_contexts c)) \<Longrightarrow>
   \<forall>c\<in>set (cluster_loop th xs cs). cl_support c = int (length (cl_contexts c))"
proof (induction xs arbitrary: cs)
  case Nil
  then show ?case by simp
next
  case (Cons x xs)
  show ?case
  proof (cases "best_cluster_loop th (set (nearby_locations x)) cs 0 0 None")
    case None
    have "\<forall>c\<in>set (cs @ [new_cluster x]). cl_support c = int (length (cl_contexts c))"
      using Cons.prems by (simp add: new_cluster_def)
    from Cons.IH[OF this] None show ?thesis by simp
  next
    case (Some j)
    then have j: "j < length cs" by (rule best_cluster_loop_in_range)
    then have "cl_support (cs ! j) = int (length (cl_contexts (cs ! j)))"
      using Cons.prems by simp
    then have "cl_support (add_to_cluster x (cs ! j)) = int (length (cl_contexts (add_to_cluster x (cs ! j))))"
      by (simp add: add_to_cluster_def)
    then have "\<forall>c\<in>set (cs[j := add_to_cluster x (cs ! j)]). cl_support c = int (length (cl_contexts c))"
      using Cons.prems by (auto dest!: set_update_subset_insert[THEN subsetD])
    from Cons.IH[OF this] Some show ?thesis by simp
  qed
qed

lemma cluster_contexts_support:
  "c \<in> set (cluster_contexts self mention) \<Longrightarrow> cl_support c = int (length (cl_contexts c))"
proof (cases "contexts mention = [] \<or> length (contexts mention) = 1")
  case True
  assume "c \<in> set (cluster_contexts self mention)"
  with True show ?thesis by (auto simp: cluster_contexts_def split: if_splits)
next
  case False
  assume c: "c \<in> set (cluster_contexts self mention)"
  have "\<forall>c\<in>set (cluster_loop (similarity_threshold self) (contexts mention) []).
          cl_support c = int (length (cl_contexts c))"
    by (rule cluster_loop_support) simp
  with c False show ?thesis
    by (auto simp: cluster_contexts_def sort_by_support_def)
qed

lemma sum_support_cluster_contexts:
  "sum_list (map cl_support (cluster_contexts self mention)) = int (length (contexts mention))"
proof -
  let ?cs = "cluster_contexts self mention"
  have len: "sum_list (map (\<lambda>c. int (length (cl_contexts c))) cs)
             = int (length (concat (map cl_contexts cs)))" for cs :: "ContextCluster list"
    by (induction cs) simp_all
  have "map cl_support ?cs = map (\<lambda>c. int (length (cl_contexts c))) ?cs"
    by (rule map_cong) (simp_all add: cluster_contexts_support)
  then have "sum_list (map cl_support ?cs) = int (length (concat (map cl_contexts ?cs)))"
    using len[of ?cs] by (simp only:)
  also have "length (concat (map cl_contexts ?cs)) = length (contexts mention)"
    using cluster_contexts_mset[of self mention] by (metis size_mset)
  finally show ?thesis .
qed

lemma cluster_contexts_sorted:
  "sorted_wrt (\<lambda>a b. cl_support a \<ge> cl_support b) (cluster_contexts self mention)"
proof (cases "contexts mention = [] \<or> length (contexts mention) = 1")
  case True
  then show ?thesis by (auto simp: cluster_contexts_def)
next
  case False
  let ?xs = "cluster_loop (similarity_threshold self) (contexts mention) []"
  have "sorted (map (\<lambda>c. - cl_support c) (sort_key (\<lambda>c. - cl_support c) ?xs))"
    by (rule sorted_sort_key)
  then have "sorted_wrt (\<lambda>a b. cl_support a \<ge> cl_support b) (sort_key (\<lambda>c. - cl_support c) ?xs)"
    by (simp add: sorted_map sorted_wrt_iff_nth_less)
  then have "sorted_wrt (\<lambda>a b. cl_support a \<ge> cl_support b)
               (map (assign_confidence (length (contexts mention))) (sort_key (\<lambda>c. - cl_support c) ?xs))"
    by (simp add: sorted_wrt_map)
  with False show ?thesis by (simp add: cluster_contexts_def sort_by_support_def)
qed

lemma detect_multiple_referents_fst:
  "fst (detect_multiple_referents self mention)
   = (1 < length (cluster_contexts self mention)
      \<and> (of_int (cl_support (cluster_contexts self mention ! 1)) :: rat)
          \<ge> (20 / 100) * of_nat (length (contexts mention)))"
proof (cases "length (cluster_contexts self mention) < 2")
  case True
  then show ?thesis by (simp add: detect_multiple_referents_def Let_def)
next
  case False
  then have "2 \<le> length (cluster_contexts self mention)" by simp
  have pos: "0 < length (contexts mention)"
    using False by (cases "contexts mention") (simp_all add: cluster_contexts_def)
  have "fst (detect_multiple_referents self mention)
        = ((2::rat) / 10 \<le> of_int (cl_support (cluster_contexts self mention ! 1))
                         / of_int (int (length (contexts mention))))"
    using False by (simp add: detect_multiple_referents_def Let_def sum_support_cluster_contexts)
  also have "\<dots> = ((20 / 100) * of_nat (length (contexts mention))
                    \<le> (of_int (cl_support (cluster_contexts self mention ! 1)) :: rat))"
    using pos by (simp add: pos_le_divide_eq)
  finally show ?thesis using False by simp
qed

lemma sim_same: "cluster_similarity {''Ontario'', ''Canada''} {''Ontario'', ''Canada''} = 1"
  by (simp add: cluster_similarity_def)

lemma sim_same2: "cluster_similarity {''England'', ''Thames''} {''England'', ''Thames''} = 1"
  by (simp add: cluster_similarity_def)

lemma sim_diff: "cluster_similarity {''England'', ''Thames''} {''Ontario'', ''Canada''} = 0"
  by (simp add: cluster_similarity_def)

lemma sim_diff2: "cluster_similarity {''Ontario'', ''Canada''} {''England'', ''Thames''} = 0"
  by (simp add: cluster_similarity_def)

lemma length5: "length xs = 5 \<Longrightarrow> \<exists>a b c d e. xs = [a, b, c, d, e]"
  by (auto simp: length_Suc_conv numeral_eq_Suc)

lemma all_less5: "(\<forall>j<5. P j) = (P (0::nat) \<and> P 1 \<and> P 2 \<and> P 3 \<and> P 4)"
  by (auto simp: numeral_eq_Suc less_Suc_eq)

lemma ex_less5: "(\<exists>j<5. P j) = (P (0::nat) \<or> P 1 \<or> P 2 \<or> P 3 \<or> P 4)"
  by (auto simp: numeral_eq_Suc less_Suc_eq)

lemmas scenario_simps = sim_same sim_same2 sim_diff sim_diff2 add_to_cluster_def new_cluster_def
  sort_by_support_def assign_confidence_def Let_def

lemma scenario_case0:
  assumes "contexts mention = [a, b, c, d, e]" and "similarity_threshold self = 3 / 10"
    and "set (nearby_locations a) = {''England'', ''Thames''}"
      "set (nearby_locations b) = {''Ontario'', ''Canada''}"
      "set (nearby_locations c) = {''Ontario'', ''Canada''}"
      "set (nearby_locations d) = {''Ontario'', ''Canada''}"
      "set (nearby_locations e) = {''Ontario'', ''Canada''}"
  shows "map (\<lambda>c. (cl_support c, cl_confidence c)) (cluster_contexts self mention)
         = [(4, ''high''), (1, ''low'')]"
  using assms by (simp add: cluster_contexts_def scenario_simps)

lemma scenario_case1:
  assumes "contexts mention = [a, b, c, d, e]" and "similarity_threshold self = 3 / 10"
    and "set (nearby_locations a) = {''Ontario'', ''Canada''}"
      "set (nearby_locations b) = {''England'', ''Thames''}"
      "set (nearby_locations c) = {''Ontario'', ''Canada''}"
      "set (nearby_locations d) = {''Ontario'', ''Canada''}"
      "set (nearby_locations e) = {''Ontario'', ''Canada''}"
  shows "map (\<lambda>c. (cl_support c, cl_confidence c)) (cluster_contexts self mention)
         = [(4, ''high''), (1, ''low'')]"
  using assms by (simp add: cluster_contexts_def scenario_simps)

lemma scenario_case2:
  assumes "contexts mention = [a, b, c, d, e]" and "similarity_threshold self = 3 / 10"
    and "set (nearby_locations a) = {''Ontario'', ''Canada''}"
      "set (nearby_locations b) = {''Ontario'', ''Canada''}"
      "set (nearby_locations c) = {''England'', ''Thames''}"
      "set (nearby_locations d) = {''Ontario'', ''Canada''}"
      "set (nearby_locations e) = {''Ontario'', ''Canada''}"
  shows "map (\<lambda>c. (cl_support c, cl_confidence c)) (cluster_contexts self mention)
         = [(4, ''high''), (1, ''low'')]"
  using assms by (simp add: cluster_contexts_def scenario_simps)

lemma scenario_case3:
  assumes "contexts mention = [a, b, c, d, e]" and "similarity_threshold self = 3 / 10"
    and "set (nearby_locations a) = {''Ontario'', ''Canada''}"
      "set (nearby_locations b) = {''Ontario'', ''Canada''}"
      "set (nearby_locations c) = {''Ontario'', ''Canada''}"
      "set (nearby_locations d) = {''England'', ''Thames''}"
      "set (nearby_locations e) = {''Ontario'', ''Canada''}"
  shows "map (\<lambda>c. (cl_support c, cl_confidence c)) (cluster_contexts self mention)
         = [(4, ''high''), (1, ''low'')]"
  using assms by (simp add: cluster_contexts_def scenario_simps)

lemma scenario_case4:
  assumes "contexts mention = [a, b, c, d, e]" and "similarity_threshold self = 3 / 10"
    and "set (nearby_locations a) = {''Ontario'', ''Canada''}"
      "set (nearby_locations b) = {''Ontario'', ''Canada''}"
      "set (nearby_locations c) = {''Ontario'', ''Canada''}"
      "set (nearby_locations d) = {''Ontario'', ''Canada''}"
      "set (nearby_locations e) = {''England'', ''Thames''}"
  shows "map (\<lambda>c. (cl_support c, cl_confidence c)) (cluster_contexts self mention)
         = [(4, ''high''), (1, ''low'')]"
  using assms by (simp add: cluster_contexts_def scenario_simps)

lemma scenario_A_length: assumes "scenario_A mention" shows "length (contexts mention) = 5"
  using assms unfolding scenario_A_def by (elim conjE)

lemma scenario_A_odd_one: assumes "scenario_A mention" shows "\<exists>i<5. set (nearby_locations (contexts mention ! i)) = {''England'', ''Thames''}
        \<and> (\<forall>j<5. j \<noteq> i \<longrightarrow> set (nearby_locations (contexts mention ! j)) = {''Ontario'', ''Canada''})"
  using assms unfolding scenario_A_def by (elim conjE)

lemma scenario_A_five:
  assumes "scenario_A mention"
  shows "\<exists>a b c d e. contexts mention = [a, b, c, d, e]"
    using length5[OF scenario_A_length[OF assms(1)]] by blast

lemma scenario_A_index:
  assumes "scenario_A mention"
  shows "\<exists>i. i < 5 \<and> set (nearby_locations (contexts mention ! i)) = {''England'', ''Thames''} \<and> 
   (\<forall>j<5. j \<noteq> i \<longrightarrow> set (nearby_locations (contexts mention ! j)) = {''Ontario'', ''Canada''})"
  using scenario_A_odd_one[OF assms(1)] by blast

lemma nth5: "[a, b, c, d, e] ! 0 = a" "[a, b, c, d, e] ! 1 = b" "[a, b, c, d, e] ! 2 = c"
  "[a, b, c, d, e] ! 3 = d" "[a, b, c, d, e] ! 4 = e"
  by simp_all

lemma scenario_rest_second:
  assumes cs: "contexts mention = [a, b, c, d, e]"
  and rest: "\<forall>j<5. j \<noteq> i \<longrightarrow> set (nearby_locations (contexts mention ! j)) = {''Ontario'', ''Canada''}"
  shows  "1 \<noteq> i \<longrightarrow> set (nearby_locations b) = {''Ontario'', ''Canada''}" 
  using rest[rule_format, of 1] by (simp only: cs nth5) simp

lemma less_five_cases: "i < 5 \<Longrightarrow> i = 0 \<or> i = 1 \<or> i = 2 \<or> i = 3 \<or> i = (4::nat)" by arith

lemma scenario_clusters:
  assumes "scenario_A mention" and th: "similarity_threshold self = 3 / 10"
  shows "map (\<lambda>c. (cl_support c, cl_confidence c)) (cluster_contexts self mention)
         = [(4, ''high''), (1, ''low'')]"
proof -
  let ?E = "\<lambda>x. set (nearby_locations x) = {''England'', ''Thames''}"
  let ?O = "\<lambda>x. set (nearby_locations x) = {''Ontario'', ''Canada''}"
  from scenario_A_five[OF assms(1)] obtain a b c d e where cs: "contexts mention = [a, b, c, d, e]"
    by (elim exE)
  from scenario_A_index[OF assms(1)] obtain i where ii: "i < 5 \<and> ?E (contexts mention ! i)
    \<and> (\<forall>j<5. j \<noteq> i \<longrightarrow> ?O (contexts mention ! j))" ..
  from ii have i: "i < 5" by (rule conjunct1)
  from ii have odd: "?E (contexts mention ! i)" by (elim conjE)
  from ii have rest: "\<forall>j<5. j \<noteq> i \<longrightarrow> ?O (contexts mention ! j)" by (elim conjE)
  have r0: "0 \<noteq> i \<longrightarrow> ?O a" using rest[rule_format, of 0] by (simp only: cs nth5) simp
  have r1: "1 \<noteq> i \<longrightarrow> ?O b" using rest[rule_format, of 1] by (simp only: cs nth5) simp
  have r2: "2 \<noteq> i \<longrightarrow> ?O c" using rest[rule_format, of 2] by (simp only: cs nth5) simp
  have r3: "3 \<noteq> i \<longrightarrow> ?O d" using rest[rule_format, of 3] by (simp only: cs nth5) simp
  have r4: "4 \<noteq> i \<longrightarrow> ?O e" using rest[rule_format, of 4] by (simp only: cs nth5) simp
  from i have "i = 0 \<or> i = 1 \<or> i = 2 \<or> i = 3 \<or> i = 4" by arith
  then show ?thesis
  proof (elim disjE)
    assume i0: "i = 0"
    have f0: "?E a" using odd unfolding cs i0 nth5 .
    have f1: "?O b" using r1 unfolding i0 by simp
    have f2: "?O c" using r2 unfolding i0 by simp
    have f3: "?O d" using r3 unfolding i0 by simp
    have f4: "?O e" using r4 unfolding i0 by simp
    show ?thesis by (rule scenario_case0[OF cs th f0 f1 f2 f3 f4])
  next
    assume i0: "i = 1"
    have f0: "?O a" using r0 unfolding i0 by simp
    have f1: "?E b" using odd unfolding cs i0 nth5 .
    have f2: "?O c" using r2 unfolding i0 by simp
    have f3: "?O d" using r3 unfolding i0 by simp
    have f4: "?O e" using r4 unfolding i0 by simp
    show ?thesis by (rule scenario_case1[OF cs th f0 f1 f2 f3 f4])
  next
    assume i0: "i = 2"
    have f0: "?O a" using r0 unfolding i0 by simp
    have f1: "?O b" using r1 unfolding i0 by simp
    have f2: "?E c" using odd unfolding cs i0 nth5 .
    have f3: "?O d" using r3 unfolding i0 by simp
    have f4: "?O e" using r4 unfolding i0 by simp
    show ?thesis by (rule scenario_case2[OF cs th f0 f1 f2 f3 f4])
  next
    assume i0: "i = 3"
    have f0: "?O a" using r0 unfolding i0 by simp
    have f1: "?O b" using r1 unfolding i0 by simp
    have f2: "?O c" using r2 unfolding i0 by simp
    have f3: "?E d" using odd unfolding cs i0 nth5 .
    have f4: "?O e" using r4 unfolding i0 by simp
    show ?thesis by (rule scenario_case3[OF cs th f0 f1 f2 f3 f4])
  next
    assume i0: "i = 4"
    have f0: "?O a" using r0 unfolding i0 by simp
    have f1: "?O b" using r1 unfolding i0 by simp
    have f2: "?O c" using r2 unfolding i0 by simp
    have f3: "?O d" using r3 unfolding i0 by simp
    have f4: "?E e" using odd unfolding cs i0 nth5 .
    show ?thesis by (rule scenario_case4[OF cs th f0 f1 f2 f3 f4])
  qed
qed

lemma scenario_A_clusters_result:
  assumes "scenario_A mention" and th: "similarity_threshold self = 3 / 10"
  shows "length (cluster_contexts self mention) = 2
         \<and> cl_support (cluster_contexts self mention ! 0) = 4
         \<and> cl_confidence (cluster_contexts self mention ! 0) = ''high''
         \<and> fst (detect_multiple_referents self mention)"
proof -
  let ?cs = "cluster_contexts self mention"
  from scenario_clusters[OF assms]
  have m: "map (\<lambda>c. (cl_support c, cl_confidence c)) ?cs = [(4, ''high''), (1, ''low'')]" .
  then obtain x y where xy: "?cs = [x, y]" and x: "cl_support x = 4" "cl_confidence x = ''high''"
      and y: "cl_support y = 1"
    by (auto simp: map_eq_Cons_conv)
  have five: "length (contexts mention) = 5" by (rule scenario_A_length[OF assms(1)])
  have "fst (detect_multiple_referents self mention)"
    unfolding detect_multiple_referents_fst xy five using y by simp
  with xy x show ?thesis by simp
qed


text \<open>
  C4. The clusters returned by \<open>cluster_contexts\<close> partition the occurrences of the
  mention: the member lists of the clusters, taken together, hold every occurrence of the
  mention exactly as often as the mention does, so none is lost and none is duplicated.
\<close>

theorem clusters_partition_occurrences:
  "mset (concat (map cl_contexts (cluster_contexts self mention))) = mset (contexts mention)"
  by (rule cluster_contexts_mset)

theorem clusters_partition_occurrences_witness:
  "mset (concat (map cl_contexts (cluster_contexts default_clusterer london_mention)))
   = mset (contexts london_mention)"
  by (rule clusters_partition_occurrences)

text \<open>
  C5. \<open>detect_multiple_referents\<close> answers True exactly when there is more than one
  cluster and the support of the second cluster is at least 20 percent of the number of
  occurrences; the clusters are in descending order of support, so the second cluster is
  the second largest. In Scenario A at threshold 0.3 there are two clusters, the first has
  support 4 and confidence high, and multiple referents are reported.
\<close>

theorem detect_multiple_referents_second_cluster:
  "fst (detect_multiple_referents self mention)
     = (1 < length (cluster_contexts self mention)
        \<and> (of_int (cl_support (cluster_contexts self mention ! 1)) :: rat)
            \<ge> (20 / 100) * of_nat (length (contexts mention)))
   \<and> snd (detect_multiple_referents self mention) = cluster_contexts self mention
   \<and> sorted_wrt (\<lambda>a b. cl_support a \<ge> cl_support b) (cluster_contexts self mention)
   \<and> (scenario_A mention \<and> similarity_threshold self = 3 / 10 \<longrightarrow>
        length (cluster_contexts self mention) = 2
        \<and> cl_support (cluster_contexts self mention ! 0) = 4
        \<and> cl_confidence (cluster_contexts self mention ! 0) = ''high''
        \<and> fst (detect_multiple_referents self mention))"
proof -
  have "snd (detect_multiple_referents self mention) = cluster_contexts self mention"
    by (simp add: detect_multiple_referents_def Let_def)
  moreover note detect_multiple_referents_fst[of self mention]
    cluster_contexts_sorted[of self mention]
  moreover have "scenario_A mention \<and> similarity_threshold self = 3 / 10 \<longrightarrow>
        length (cluster_contexts self mention) = 2
        \<and> cl_support (cluster_contexts self mention ! 0) = 4
        \<and> cl_confidence (cluster_contexts self mention ! 0) = ''high''
        \<and> fst (detect_multiple_referents self mention)"
    using scenario_A_clusters_result[of mention self] by (intro impI) (elim conjE)
  ultimately show ?thesis by (intro conjI)
qed

lemma scenario_A_london_mention: "scenario_A london_mention"
proof -
  have "set (nearby_locations (contexts london_mention ! 2)) = {''England'', ''Thames''}
        \<and> (\<forall>j<5. j \<noteq> 2 \<longrightarrow>
              set (nearby_locations (contexts london_mention ! j)) = {''Ontario'', ''Canada''})"
    unfolding all_less5
    by (simp add: london_mention_def ontario_context_def england_context_def)
  then have "\<exists>i<5. set (nearby_locations (contexts london_mention ! i)) = {''England'', ''Thames''}
        \<and> (\<forall>j<5. j \<noteq> i \<longrightarrow>
              set (nearby_locations (contexts london_mention ! j)) = {''Ontario'', ''Canada''})"
    by (intro exI[of _ 2] conjI) simp_all
  moreover have "name london_mention = ''London''" "length (contexts london_mention) = 5"
    by (simp_all add: london_mention_def)
  ultimately show ?thesis unfolding scenario_A_def by (intro conjI)
qed

theorem detect_multiple_referents_second_cluster_witness:
  "scenario_A london_mention \<and> similarity_threshold default_clusterer = 3 / 10
   \<and> length (cluster_contexts default_clusterer london_mention) = 2
   \<and> cl_support (cluster_contexts default_clusterer london_mention ! 0) = 4
   \<and> cl_confidence (cluster_contexts default_clusterer london_mention ! 0) = ''high''
   \<and> fst (detect_multiple_referents default_clusterer london_mention)"
proof -
  have th: "similarity_threshold default_clusterer = 3 / 10"
    by (simp add: default_clusterer_def)
  from detect_multiple_referents_second_cluster[of default_clusterer london_mention]
  have "scenario_A london_mention \<and> similarity_threshold default_clusterer = 3 / 10 \<longrightarrow>
        length (cluster_contexts default_clusterer london_mention) = 2
        \<and> cl_support (cluster_contexts default_clusterer london_mention ! 0) = 4
        \<and> cl_confidence (cluster_contexts default_clusterer london_mention ! 0) = ''high''
        \<and> fst (detect_multiple_referents default_clusterer london_mention)"
    by (elim conjE)
  with scenario_A_london_mention th show ?thesis by (intro conjI) (elim impE conjE, (intro conjI)?, assumption+)+
qed

text \<open>
  C10. A mention with exactly one occurrence yields exactly one cluster; it holds that
  occurrence, has support 1 and confidence high.
\<close>

theorem single_occurrence_single_high_cluster:
  assumes "length (contexts mention) = 1"
  shows "\<exists>c. cluster_contexts self mention = [c] \<and> cl_contexts c = contexts mention
             \<and> cl_support c = 1 \<and> cl_confidence c = ''high''"
  using assms by (auto simp: cluster_contexts_def)

theorem single_occurrence_single_high_cluster_witness:
  "length (contexts regina_mention) = 1
   \<and> (\<exists>c. cluster_contexts default_clusterer regina_mention = [c]
            \<and> cl_contexts c = contexts regina_mention
            \<and> cl_support c = 1 \<and> cl_confidence c = ''high'')"
proof -
  have h: "length (contexts regina_mention) = 1" by (simp add: regina_mention_def)
  from h single_occurrence_single_high_cluster[OF h, of default_clusterer] show ?thesis
    by (intro conjI)
qed

section \<open>Properties of the disambiguation orchestrator\<close>

lemma disambiguate_with_llm_two_attempts:
  "disambiguate_with_llm jl ps llm cands =
     (case attempt_once jl ps cands (llm 0) of
        Inr r \<Rightarrow> (r, 1)
      | Inl (JSONDecodeError m) \<Rightarrow>
          (case attempt_once jl ps cands (llm 1) of
             Inr r \<Rightarrow> (r, 2)
           | Inl (JSONDecodeError m') \<Rightarrow> ((None, JStr (''LLM response parsing failed: '' @ m')), 2)
           | Inl e \<Rightarrow> ((None, JStr (''LLM error: '' @ exn_str e)), 2))
      | Inl e \<Rightarrow> ((None, JStr (''LLM error: '' @ exn_str e)), 1))"
proof -
  have one: "llm_retry_loop jl ps llm cands 2 1 =
     (case attempt_once jl ps cands (llm 1) of
             Inr r \<Rightarrow> (r, 2)
           | Inl (JSONDecodeError m') \<Rightarrow> ((None, JStr (''LLM response parsing failed: '' @ m')), 2)
           | Inl e \<Rightarrow> ((None, JStr (''LLM error: '' @ exn_str e)), 2))"
    by (subst llm_retry_loop.simps) (simp split: sum.splits py_exception.splits)
  have zero: "llm_retry_loop jl ps llm cands 2 0 =
     (case attempt_once jl ps cands (llm 0) of
        Inr r \<Rightarrow> (r, 1)
      | Inl (JSONDecodeError m) \<Rightarrow> llm_retry_loop jl ps llm cands 2 1
      | Inl e \<Rightarrow> ((None, JStr (''LLM error: '' @ exn_str e)), 1))"
    by (subst llm_retry_loop.simps) (simp split: sum.splits py_exception.splits)
  show ?thesis unfolding disambiguate_with_llm_def Let_def zero one ..
qed

lemma calls_le_two: "snd (disambiguate_with_llm jl ps llm cands) \<le> 2"
  by (simp add: disambiguate_with_llm_two_attempts split: sum.splits py_exception.splits)

lemma calls_ge_one: "1 \<le> snd (disambiguate_with_llm jl ps llm cands)"
  by (simp add: disambiguate_with_llm_two_attempts split: sum.splits py_exception.splits)

text \<open>The reply that is acted upon is the last one received.\<close>

lemma answered_reply:
  assumes "k < snd (disambiguate_with_llm jl ps llm cands)"
    and "attempt_once jl ps cands (llm k) = Inr r"
  shows "fst (disambiguate_with_llm jl ps llm cands) = r"
proof -
  from assms(1) calls_le_two[of jl ps llm cands] have "k = 0 \<or> k = 1" by arith
  then show ?thesis
  proof
    assume "k = 0"
    with assms(2) show ?thesis by (simp add: disambiguate_with_llm_two_attempts)
  next
    assume k: "k = 1"
    with assms(1) have "snd (disambiguate_with_llm jl ps llm cands) = 2"
      using calls_le_two[of jl ps llm cands] by arith
    with assms(2) k show ?thesis
      by (simp add: disambiguate_with_llm_two_attempts split: sum.splits py_exception.splits)
  qed
qed

lemma decide_low:
  assumes "map_of d ''confidence'' = Some (JStr conf)" and "py_lower conf = ''low''"
  shows "\<exists>r. decide ps cands (JObj d) = Inr (None, r)"
  using assms by (simp add: decide_def Let_def dict_get_default_def)

lemma find_candidate_none:
  assumes "\<forall>c\<in>set cands. \<not> py_eq (dict_get c ''id'') sid"
  shows "find_candidate cands sid = None"
  using assms by (simp add: find_candidate_def find_None_iff)

lemma decide_unmatched:
  assumes "dict_get d ''selected_id'' = sid" and "sid \<noteq> JNull"
    and "dict_get_default d ''confidence'' (JStr ''medium'') = JStr conf"
    and "py_lower conf \<noteq> ''low''"
    and "\<forall>c\<in>set cands. \<not> py_eq (dict_get c ''id'') sid"
  shows "decide ps cands (JObj d)
         = Inr (None, dict_get_default d ''reasoning'' (JStr ''No reasoning provided''))"
  using assms by (simp add: decide_def Let_def find_candidate_none)

text \<open>The shape of the result of \<open>disambiguate\<close> once the reasoning service is consulted.\<close>

lemma disambiguate_consults:
  assumes "disambiguate jl ps self mention src cid = Inr (res, calls)" and "0 < calls"
  shows "\<exists>cands target. neo4j_get_candidates self (name mention) (max_candidates self) = Inr cands
           \<and> cands \<noteq> []
           \<and> select_target (cluster_contexts (clusterer self) mention) cid = Inr (Some target)
           \<and> calls = snd (disambiguate_with_llm jl ps (llm_client self) cands)
           \<and> selected_candidate res = fst (fst (disambiguate_with_llm jl ps (llm_client self) cands))
           \<and> reasoning res = snd (fst (disambiguate_with_llm jl ps (llm_client self) cands))
           \<and> all_candidates res = cands
           \<and> confidence res = calculate_confidence (cl_confidence target) (int (length cands))
                (int (length (select_representative_contexts target (max_contexts_per_cluster self))))
                (fst (detect_multiple_referents (clusterer self) mention))"
  using assms
  by (auto simp: disambiguate_def Let_def split: sum.splits option.splits if_splits prod.splits)





text \<open>
  C1. Whenever a reply that \<open>disambiguate\<close> received from the reasoning service parses as
  a record whose confidence is ``low'' (in any letter case), the result has no selected
  candidate, whatever \<open>selected_id\<close> the record names.
\<close>

theorem low_confidence_selects_nothing:
  assumes "disambiguate json_loads py_str self mention src cluster_id = Inr (res, calls)"
    and "k < calls"
    and "parse_reply json_loads (llm_client self k) = Inr (JObj d)"
    and "map_of d ''confidence'' = Some (JStr conf)"
    and "py_lower conf = ''low''"
  shows "selected_candidate res = None"
proof -
  from assms(2) have "0 < calls" by simp
  from disambiguate_consults[OF assms(1) this] obtain cands where
    calls: "calls = snd (disambiguate_with_llm json_loads py_str (llm_client self) cands)" and
    sel: "selected_candidate res = fst (fst (disambiguate_with_llm json_loads py_str (llm_client self) cands))"
    by (elim exE conjE)
  from decide_low[OF assms(4,5)] obtain r where "decide py_str cands (JObj d) = Inr (None, r)" ..
  with assms(3) have att: "attempt_once json_loads py_str cands (llm_client self k) = Inr (None, r)"
    by (simp add: attempt_once_def)
  from assms(2) calls
  have "k < snd (disambiguate_with_llm json_loads py_str (llm_client self) cands)" by simp
  from answered_reply[of k json_loads py_str "llm_client self" cands, OF this att] sel
  show ?thesis by simp
qed

theorem low_confidence_selects_nothing_witness:
  "disambiguate sample_loads sample_str (sample_disambiguator london_retriever low_confidence_service)
      london_mention None None
   = Inr (\<lparr>toponym = ''London'', selected_candidate = None, confidence = ''low'',
           reasoning = JStr ''Low confidence: plausible but uncertain'',
           clusters_detected = 2, has_multiple_referents = True,
           all_candidates = london_candidates, contexts_used = [''a'', ''b'', ''d''],
           res_nearby_locations = {''Ontario'', ''Canada''}, source_location = None\<rparr>, 1)
   \<and> parse_reply sample_loads
         (llm_client (sample_disambiguator london_retriever low_confidence_service) 0)
       = Inr (JObj [(''selected_id'', JInt 1), (''confidence'', JStr ''low''),
                    (''reasoning'', JStr ''plausible but uncertain'')])
   \<and> find_candidate london_candidates (JInt 1)
       = Some [(''id'', JInt 1), (''title'', JStr ''London''), (''country'', JStr ''GB'')]
   \<and> selected_candidate
        \<lparr>toponym = ''London'', selected_candidate = None, confidence = ''low'',
         reasoning = JStr ''Low confidence: plausible but uncertain'',
         clusters_detected = 2, has_multiple_referents = True,
         all_candidates = london_candidates, contexts_used = [''a'', ''b'', ''d''],
         res_nearby_locations = {''Ontario'', ''Canada''}, source_location = None\<rparr> = None"
proof -
  have run: "disambiguate sample_loads sample_str
      (sample_disambiguator london_retriever low_confidence_service) london_mention None None
   = Inr (\<lparr>toponym = ''London'', selected_candidate = None, confidence = ''low'',
           reasoning = JStr ''Low confidence: plausible but uncertain'',
           clusters_detected = 2, has_multiple_referents = True,
           all_candidates = london_candidates, contexts_used = [''a'', ''b'', ''d''],
           res_nearby_locations = {''Ontario'', ''Canada''}, source_location = None\<rparr>, 1)"
    by code_simp
  have parsed: "parse_reply sample_loads
         (llm_client (sample_disambiguator london_retriever low_confidence_service) 0)
       = Inr (JObj [(''selected_id'', JInt 1), (''confidence'', JStr ''low''),
                    (''reasoning'', JStr ''plausible but uncertain'')])"
    by code_simp
  have found: "find_candidate london_candidates (JInt 1)
       = Some [(''id'', JInt 1), (''title'', JStr ''London''), (''country'', JStr ''GB'')]"
    by code_simp
  have conf: "map_of [(''selected_id'', JInt 1), (''confidence'', JStr ''low''),
                    (''reasoning'', JStr ''plausible but uncertain'')] ''confidence''
              = Some (JStr ''low'')"
    by simp
  have low: "py_lower ''low'' = ''low''" by code_simp
  have k: "(0::nat) < 1" by simp
  note low_confidence_selects_nothing[OF run k parsed conf low]
  with run parsed found show ?thesis by (intro conjI)
qed

text \<open>
  C7 (as the code has it). When a reply parses as a record with a non-null
  \<open>selected_id\<close> and confidence ``medium'' or ``high'', and no candidate of the supplied
  list has that identifier, the result has no selected candidate, and its reasoning is
  the reasoning field of the reply, unchanged (or ``No reasoning provided'' when the
  reply has none).
\<close>

theorem unmatched_identifier_keeps_service_reasoning:
  assumes "disambiguate json_loads py_str self mention src cluster_id = Inr (res, calls)"
    and "k < calls"
    and "parse_reply json_loads (llm_client self k) = Inr (JObj d)"
    and "dict_get d ''selected_id'' \<noteq> JNull"
    and "dict_get_default d ''confidence'' (JStr ''medium'') = JStr conf"
    and "py_lower conf = ''medium'' \<or> py_lower conf = ''high''"
    and "\<forall>c\<in>set (all_candidates res). \<not> py_eq (dict_get c ''id'') (dict_get d ''selected_id'')"
  shows "selected_candidate res = None
         \<and> reasoning res = dict_get_default d ''reasoning'' (JStr ''No reasoning provided'')"
proof -
  from assms(2) have "0 < calls" by simp
  from disambiguate_consults[OF assms(1) this] obtain cands where
    calls: "calls = snd (disambiguate_with_llm json_loads py_str (llm_client self) cands)" and
    sel: "selected_candidate res = fst (fst (disambiguate_with_llm json_loads py_str (llm_client self) cands))" and
    rea: "reasoning res = snd (fst (disambiguate_with_llm json_loads py_str (llm_client self) cands))" and
    all: "all_candidates res = cands"
    by (elim exE conjE)
  from assms(6) have not_low: "py_lower conf \<noteq> ''low''" by auto
  from assms(7) all
  have none: "\<forall>c\<in>set cands. \<not> py_eq (dict_get c ''id'') (dict_get d ''selected_id'')" by simp
  have "decide py_str cands (JObj d)
        = Inr (None, dict_get_default d ''reasoning'' (JStr ''No reasoning provided''))"
    by (rule decide_unmatched[OF refl assms(4) assms(5) not_low none])
  with assms(3)
  have att: "attempt_once json_loads py_str cands (llm_client self k)
             = Inr (None, dict_get_default d ''reasoning'' (JStr ''No reasoning provided''))"
    by (simp add: attempt_once_def)
  from assms(2) calls
  have "k < snd (disambiguate_with_llm json_loads py_str (llm_client self) cands)" by simp
  from answered_reply[of k json_loads py_str "llm_client self" cands, OF this att] sel rea
  show ?thesis by simp
qed

theorem unmatched_identifier_keeps_service_reasoning_witness:
  "disambiguate sample_loads sample_str (sample_disambiguator london_retriever unmatched_id_service)
      london_mention None (Some 1)
   = Inr (\<lparr>toponym = ''London'', selected_candidate = None, confidence = ''low'',
           reasoning = JStr ''Thames is in England'',
           clusters_detected = 2, has_multiple_referents = True,
           all_candidates = london_candidates, contexts_used = [''c''],
           res_nearby_locations = {''England'', ''Thames''}, source_location = None\<rparr>, 1)
   \<and> parse_reply sample_loads
         (llm_client (sample_disambiguator london_retriever unmatched_id_service) 0)
       = Inr (JObj [(''selected_id'', JInt 7), (''confidence'', JStr ''high''),
                    (''reasoning'', JStr ''Thames is in England'')])
   \<and> py_lower ''high'' = ''high''
   \<and> list_all (\<lambda>c. \<not> py_eq (dict_get c ''id'') (JInt 7)) london_candidates
   \<and> selected_candidate ((\<lparr>toponym = ''London'', selected_candidate = None, confidence = ''low'',
           reasoning = JStr ''Thames is in England'',
           clusters_detected = 2, has_multiple_referents = True,
           all_candidates = london_candidates, contexts_used = [''c''],
           res_nearby_locations = {''England'', ''Thames''}, source_location = None\<rparr>)) = None
   \<and> reasoning ((\<lparr>toponym = ''London'', selected_candidate = None, confidence = ''low'',
           reasoning = JStr ''Thames is in England'',
           clusters_detected = 2, has_multiple_referents = True,
           all_candidates = london_candidates, contexts_used = [''c''],
           res_nearby_locations = {''England'', ''Thames''}, source_location = None\<rparr>)) = JStr ''Thames is in England''"
proof -
  let ?d = "[(''selected_id'', JInt 7), (''confidence'', JStr ''high''),
             (''reasoning'', JStr ''Thames is in England'')]"
  let ?res = "(\<lparr>toponym = ''London'', selected_candidate = None, confidence = ''low'',
           reasoning = JStr ''Thames is in England'',
           clusters_detected = 2, has_multiple_referents = True,
           all_candidates = london_candidates, contexts_used = [''c''],
           res_nearby_locations = {''England'', ''Thames''}, source_location = None\<rparr>)"
  have run: "disambiguate sample_loads sample_str
      (sample_disambiguator london_retriever unmatched_id_service) london_mention None (Some 1)
   = Inr (\<lparr>toponym = ''London'', selected_candidate = None, confidence = ''low'',
           reasoning = JStr ''Thames is in England'',
           clusters_detected = 2, has_multiple_referents = True,
           all_candidates = london_candidates, contexts_used = [''c''],
           res_nearby_locations = {''England'', ''Thames''}, source_location = None\<rparr>, 1)"
    by code_simp
  have run': "disambiguate sample_loads sample_str
      (sample_disambiguator london_retriever unmatched_id_service) london_mention None (Some 1)
   = Inr (?res, 1)"
    by (rule run)
  have parsed: "parse_reply sample_loads
         (llm_client (sample_disambiguator london_retriever unmatched_id_service) 0)
       = Inr (JObj ?d)"
    by code_simp
  have sid: "dict_get ?d ''selected_id'' \<noteq> JNull" by (simp add: dict_get_def)
  have conf: "dict_get_default ?d ''confidence'' (JStr ''medium'') = JStr ''high''"
    by (simp add: dict_get_default_def)
  have high: "py_lower ''high'' = ''high''" by code_simp
  have hm: "py_lower ''high'' = ''medium'' \<or> py_lower ''high'' = ''high''"
    using high by (rule disjI2)
  have unmatched: "list_all (\<lambda>c. \<not> py_eq (dict_get c ''id'') (JInt 7)) london_candidates"
    by code_simp
  have cands: "all_candidates ?res = london_candidates" by simp
  have sid7: "dict_get ?d ''selected_id'' = JInt 7" by (simp add: dict_get_def)
  have none: "\<forall>c\<in>set (all_candidates ?res). \<not> py_eq (dict_get c ''id'') (dict_get ?d ''selected_id'')"
    using unmatched unfolding cands sid7 by (simp only: list_all_iff)
  have k: "(0::nat) < 1" by simp
  have why: "dict_get_default ?d ''reasoning'' (JStr ''No reasoning provided'')
             = JStr ''Thames is in England''"
    by (simp add: dict_get_default_def)
  note X = unmatched_identifier_keeps_service_reasoning[OF run' k parsed sid conf hm none]
  from X have s1: "selected_candidate ?res = None" by (rule conjunct1)
  from X have s2: "reasoning ?res = dict_get_default ?d ''reasoning'' (JStr ''No reasoning provided'')"
    by (rule conjunct2)
  from s2 why have s3: "reasoning ?res = JStr ''Thames is in England''" by (rule trans)
  show ?thesis
    apply (intro conjI)
         apply (rule run)
        apply (rule parsed)
       apply (rule high)
      apply (rule unmatched)
     apply (rule s1)
    apply (rule s3)
    done
qed

text \<open>
  C7 as stated, that the reasoning notes the mismatch, fails: in the run below the
  service names identifier 7, the candidates are 0 and 1, and the reasoning of the result
  is the text the service sent, the same text as in the run where the identifier matches.
\<close>

theorem unmatched_identifier_reasoning_counterexample:
  "disambiguate sample_loads sample_str (sample_disambiguator london_retriever unmatched_id_service)
      london_mention None (Some 1)
   = Inr (\<lparr>toponym = ''London'', selected_candidate = None, confidence = ''low'',
           reasoning = JStr ''Thames is in England'',
           clusters_detected = 2, has_multiple_referents = True,
           all_candidates = london_candidates, contexts_used = [''c''],
           res_nearby_locations = {''England'', ''Thames''}, source_location = None\<rparr>, 1)
   \<and> disambiguate sample_loads sample_str (sample_disambiguator london_retriever matched_id_service)
      london_mention None (Some 1)
   = Inr (\<lparr>toponym = ''London'', selected_candidate = Some [(''id'', JInt 1), (''title'', JStr ''London''), (''country'', JStr ''GB'')], confidence = ''low'',
           reasoning = JStr ''Thames is in England'',
           clusters_detected = 2, has_multiple_referents = True,
           all_candidates = london_candidates, contexts_used = [''c''],
           res_nearby_locations = {''England'', ''Thames''}, source_location = None\<rparr>, 1)
   \<and> find_candidate london_candidates (JInt 7) = None"
  by code_simp







text \<open>What the guard on \<open>cluster_id\<close> does for the other arguments.\<close>

lemma select_target_valid:
  assumes "0 \<le> i" and "i < int (length clusters)"
  shows "select_target clusters (Some i) = Inr (Some (clusters ! nat i))"
  using assms by (simp add: select_target_def py_index_def)

lemma select_target_largest:
  assumes "clusters \<noteq> []"
    and "cluster_id = None \<or> (\<exists>i. cluster_id = Some i \<and> int (length clusters) \<le> i)"
  shows "select_target clusters cluster_id = Inr (Some (clusters ! 0))"
  using assms by (auto simp: select_target_def)

text \<open>
  C9. A negative \<open>cluster_id\<close> passes the test \<open>cluster_id < len(clusters)\<close> and indexes
  the list from its end: with the two clusters of \<open>london_mention\<close>, \<open>cluster_id = -1\<close>
  targets the second cluster (support 1, near England), not the largest one, and
  \<open>cluster_id = -3\<close> raises \<open>IndexError\<close>.
\<close>

theorem negative_cluster_id_indexes_from_end:
  "map cl_support (cluster_contexts default_clusterer london_mention) = [4, 1]
   \<and> select_target (cluster_contexts default_clusterer london_mention) (Some (- 1))
       = Inr (Some (cluster_contexts default_clusterer london_mention ! 1))
   \<and> select_target (cluster_contexts default_clusterer london_mention) (Some (- 3))
       = Inl IndexError
   \<and> disambiguate sample_loads sample_str (sample_disambiguator london_retriever matched_id_service)
        london_mention None (Some (- 1))
       = Inr (\<lparr>toponym = ''London'', selected_candidate = Some [(''id'', JInt 1), (''title'', JStr ''London''), (''country'', JStr ''GB'')], confidence = ''low'',
           reasoning = JStr ''Thames is in England'',
           clusters_detected = 2, has_multiple_referents = True,
           all_candidates = london_candidates, contexts_used = [''c''],
           res_nearby_locations = {''England'', ''Thames''}, source_location = None\<rparr>, 1)
   \<and> disambiguate sample_loads sample_str (sample_disambiguator london_retriever matched_id_service)
        london_mention None (Some (- 3))
       = Inl IndexError"
  by code_simp

section \<open>Properties of the informativeness score\<close>

subsection \<open>Word tokens\<close>





subsection \<open>The matcher on a repetition followed by a word boundary\<close>






























section \<open>Properties of the representative context selector\<close>

lemma diversity_loop_props:
  assumes "distinct (map snd scored)" and "distinct sel" and "set sel \<inter> snd ` set scored = {}"
  shows "distinct (diversity_loop k scored sel used)
         \<and> (int (length sel) \<le> k \<longrightarrow> int (length (diversity_loop k scored sel used)) \<le> k)"
  using assms
proof (induction scored arbitrary: sel used)
  case Nil
  then show ?case by simp
next
  case (Cons x rest)
  obtain score ctx where x: "x = (score, ctx)" by (cases x)
  from Cons.prems x have notin: "ctx \<notin> set sel" and d: "distinct (map snd rest)"
    and nr: "ctx \<notin> snd ` set rest" and disj: "set sel \<inter> snd ` set rest = {}"
    by auto
  show ?case
  proof (cases "int (length sel) \<ge> k")
    case True
    with Cons.prems x show ?thesis by simp
  next
    case False
    let ?b = "py_round (position_in_doc ctx * 10)"
    have d1: "distinct (sel @ [ctx])" using Cons.prems(2) notin by simp
    have dj1: "set (sel @ [ctx]) \<inter> snd ` set rest = {}" using disj nr by auto
    have len1: "int (length (sel @ [ctx])) \<le> k" using False by simp
    from Cons.IH[OF d d1 dj1, of "insert ?b used"] len1
    have A: "distinct (diversity_loop k rest (sel @ [ctx]) (insert ?b used))"
        "int (length (diversity_loop k rest (sel @ [ctx]) (insert ?b used))) \<le> k"
      by simp_all
    from Cons.IH[OF d Cons.prems(2) disj, of used]
    have B: "distinct (diversity_loop k rest sel used)"
        "int (length sel) \<le> k \<longrightarrow> int (length (diversity_loop k rest sel used)) \<le> k"
      by simp_all
    from False x A B show ?thesis by (simp add: Let_def)
  qed
qed

lemma fill_loop_props:
  assumes "distinct sel"
  shows "distinct (fill_loop k scored sel)
         \<and> set sel \<subseteq> set (fill_loop k scored sel)
         \<and> (int (length sel) \<le> k \<longrightarrow> int (length (fill_loop k scored sel)) \<le> k)
         \<and> (k \<le> int (length (fill_loop k scored sel)) \<or> snd ` set scored \<subseteq> set (fill_loop k scored sel))"
  using assms
proof (induction scored arbitrary: sel)
  case Nil
  then show ?case by simp
next
  case (Cons x rest)
  obtain score ctx where x: "x = (score, ctx)" by (cases x)
  show ?case
  proof (cases "int (length sel) \<ge> k")
    case True
    with Cons.prems x show ?thesis by simp
  next
    case False
    show ?thesis
    proof (cases "ctx \<in> set sel")
      case True
      from Cons.IH[OF Cons.prems] True False x show ?thesis by auto
    next
      case notin: False
      have d1: "distinct (sel @ [ctx])" using Cons.prems notin by simp
      have len1: "int (length (sel @ [ctx])) \<le> k" using False by simp
      from Cons.IH[OF d1] len1 notin False x show ?thesis by auto
    qed
  qed
qed

lemma py_slice_to_id: "int (length xs) \<le> k \<Longrightarrow> py_slice_to k xs = xs"
  by (simp add: py_slice_to_def)

lemma py_slice_to_length: "0 \<le> k \<Longrightarrow> int (length (py_slice_to k xs)) \<le> k"
  by (auto simp: py_slice_to_def)

lemma select_at_most_k:
  assumes "0 \<le> k"
  shows "int (length (select_representative_contexts cluster k)) \<le> k"
  using assms by (simp add: select_representative_contexts_def Let_def py_slice_to_length)

text \<open>
  For a cluster whose occurrences are pairwise different the selector does return
  exactly min(k, cluster size) occurrences, all different.
\<close>

lemma select_exact_when_distinct:
  assumes dist: "distinct (cl_contexts cluster)" and k: "0 \<le> k"
  shows "length (select_representative_contexts cluster k) = min (nat k) (length (cl_contexts cluster))
         \<and> distinct (select_representative_contexts cluster k)"
proof (cases "int (length (cl_contexts cluster)) \<le> k")
  case True
  then have "length (cl_contexts cluster) \<le> nat k" by simp
  then have "min (nat k) (length (cl_contexts cluster)) = length (cl_contexts cluster)" by simp
  with True dist show ?thesis by (simp add: select_representative_contexts_def)
next
  case False
  let ?xs = "cl_contexts cluster"
  let ?scored = "sort_key (\<lambda>x. - fst x) (map (\<lambda>ctx. (context_informativeness_score ctx, ctx)) ?xs)"
  let ?sel1 = "diversity_loop k ?scored [] {}"
  let ?sel2 = "fill_loop k ?scored ?sel1"
  have "mset (map snd ?scored) = mset ?xs"
    by (simp add: multiset.map_comp comp_def)
  then have ds: "distinct (map snd ?scored)" and ss: "set (map snd ?scored) = set ?xs"
    using dist by (metis mset_eq_imp_distinct_iff, metis mset_eq_setD)
  from diversity_loop_props[OF ds, of "[]" k "{}"] k
  have d1: "distinct ?sel1" and l1: "int (length ?sel1) \<le> k" by simp_all
  from fill_loop_props[OF d1, of k ?scored] l1
  have d2: "distinct ?sel2" and l2: "int (length ?sel2) \<le> k"
    and full: "k \<le> int (length ?sel2) \<or> snd ` set ?scored \<subseteq> set ?sel2"
    by simp_all
  have "k \<le> int (length ?sel2)"
  proof (rule ccontr)
    assume "\<not> k \<le> int (length ?sel2)"
    with full have "snd ` set ?scored \<subseteq> set ?sel2" by simp
    with ss have "set ?xs \<subseteq> set ?sel2" by simp
    then have "card (set ?xs) \<le> card (set ?sel2)" by (intro card_mono) simp_all
    with dist d2 have "length ?xs \<le> length ?sel2" by (simp add: distinct_card)
    with l2 False show False by simp
  qed
  with l2 have len: "int (length ?sel2) = k" by simp
  have res: "select_representative_contexts cluster k = ?sel2"
    using False l2 by (simp add: select_representative_contexts_def Let_def py_slice_to_id)
  from len False have "length ?sel2 = min (nat k) (length ?xs)" by simp
  with d2 res show ?thesis by simp
qed

text \<open>
  C6. The fill-up loop tests \<open>ctx not in selected\<close>, which compares occurrences by their
  fields. Four occurrences of one paragraph (same text, nearby names and position) with
  \<open>max_contexts = 3\<close>: the first loop takes one, the second loop finds every other one
  ``already selected'', and one occurrence is returned where min(3, 4) = 3 are promised.
\<close>

theorem equal_occurrences_selected_once:
  "length (cl_contexts same_paragraph_cluster) = 4
   \<and> select_representative_contexts same_paragraph_cluster 3
       = [ontario_context ''London and again London, London, London.'' (1 / 2)]
   \<and> length (select_representative_contexts same_paragraph_cluster 3) = 1"
  by code_simp

end
